theory Spec2Isabelle
  imports Main "HOL-Library.Word"
begin

section \<open>Project configuration predicates (cmd/cql-proxy/model/project_config.go)\<close>

text \<open>
  A Go pointer that may be nil is an \<open>option\<close>: \<open>None\<close> is nil, \<open>Some v\<close> points to
  \<open>v\<close>. Dereferencing nil panics, so a dereference is a computation that may fault, and
  Go's short-circuit \<open>&&\<close> evaluates its right operand only when the left one is true.
\<close>

datatype panic = NilDereference

definition deref :: "'a option \<Rightarrow> panic + 'a" where
  "deref p = (case p of None \<Rightarrow> Inl NilDereference | Some v \<Rightarrow> Inr v)"

definition field :: "('a \<Rightarrow> 'b) \<Rightarrow> 'a option \<Rightarrow> panic + 'b" where
  "field f p = (case deref p of Inl e \<Rightarrow> Inl e | Inr v \<Rightarrow> Inr (f v))"

definition and_also :: "panic + bool \<Rightarrow> panic + bool \<Rightarrow> panic + bool" where
  "and_also a b = (case a of Inl e \<Rightarrow> Inl e | Inr x \<Rightarrow> (if x then b else Inr False))"

definition not_nil :: "panic + 'a option \<Rightarrow> panic + bool" where
  "not_nil a = (case a of Inl e \<Rightarrow> Inl e | Inr p \<Rightarrow> Inr (p \<noteq> None))"

definition load :: "panic + 'a option \<Rightarrow> panic + 'a" where
  "load a = (case a of Inl e \<Rightarrow> Inl e | Inr p \<Rightarrow> deref p)"

record ProjectMiscConfig =
  Alias :: string
  Enabled :: "bool option"
  EnableSignUp :: "bool option"
  EnableSignUpVerification :: "bool option"
  SessionAge :: "64 word"

text \<open>\<open>return c != nil && c.Enabled != nil && *c.Enabled\<close>\<close>

definition ProjectMiscConfig_IsEnabled :: "ProjectMiscConfig option \<Rightarrow> panic + bool" where
  "ProjectMiscConfig_IsEnabled c =
     and_also (Inr (c \<noteq> None))
       (and_also (not_nil (field ProjectMiscConfig.Enabled c))
                 (load (field ProjectMiscConfig.Enabled c)))"

text \<open>\<open>return c != nil && c.EnableSignUp != nil && *c.EnableSignUp\<close>\<close>

definition SupportSignUp :: "ProjectMiscConfig option \<Rightarrow> panic + bool" where
  "SupportSignUp c =
     and_also (Inr (c \<noteq> None))
       (and_also (not_nil (field EnableSignUp c)) (load (field EnableSignUp c)))"

text \<open>\<open>return c != nil && c.EnableSignUpVerification != nil && *c.EnableSignUpVerification\<close>\<close>

definition ShouldVerifyAfterSignUp :: "ProjectMiscConfig option \<Rightarrow> panic + bool" where
  "ShouldVerifyAfterSignUp c =
     and_also (Inr (c \<noteq> None))
       (and_also (not_nil (field EnableSignUpVerification c))
                 (load (field EnableSignUpVerification c)))"

record ProjectOAuthConfig =
  ClientID :: string
  ClientSecret :: string
  Enabled :: "bool option"

text \<open>\<open>return c != nil && c.Enabled != nil && *c.Enabled\<close>\<close>

definition ProjectOAuthConfig_IsEnabled :: "ProjectOAuthConfig option \<Rightarrow> panic + bool" where
  "ProjectOAuthConfig_IsEnabled c =
     and_also (Inr (c \<noteq> None))
       (and_also (not_nil (field ProjectOAuthConfig.Enabled c))
                 (load (field ProjectOAuthConfig.Enabled c)))"

text \<open>The flag a possibly-nil \<open>*bool\<close> stands for: false when nil, else the boolean.\<close>

definition flag :: "bool option \<Rightarrow> bool" where
  "flag p = (case p of None \<Rightarrow> False | Some b \<Rightarrow> b)"

section \<open>The multiplexing service (sqlchain/mux.go)\<close>

subsection \<open>Data\<close>

text \<open>
  Go's \<open>error\<close> results are \<open>error option\<close>, \<open>None\<close> being the nil error.
  \<open>ErrUnknownMuxRequest\<close> is the package-level sentinel that every routing method
  returns for an unknown database; \<open>Err msg\<close> is any other error value. A chain
  instance returns values of the same type, the sentinel included.
\<close>

datatype error = ErrUnknownMuxRequest | Err string

type_synonym DatabaseID = string

text \<open>
  Every \<open>Mux...Req\<close> and \<open>Mux...Resp\<close> struct embeds \<open>proto.Envelope\<close>,
  \<open>proto.DatabaseID\<close> and one inner message. The envelope type \<open>'e\<close> and the inner
  message type \<open>'p\<close> are parameters; the fourteen structs are instances of one record.
\<close>

record ('e, 'p) Mux =
  Envelope :: 'e
  DatabaseID :: DatabaseID
  Inner :: 'p

type_synonym ('e, 'q) MuxAdviseNewBlockReq = "('e, 'q) Mux"
type_synonym ('e, 'r) MuxAdviseNewBlockResp = "('e, 'r) Mux"
type_synonym ('e, 'q) MuxAdviseBinLogReq = "('e, 'q) Mux"
type_synonym ('e, 'r) MuxAdviseBinLogResp = "('e, 'r) Mux"
type_synonym ('e, 'q) MuxAdviseResponsedQueryReq = "('e, 'q) Mux"
type_synonym ('e, 'r) MuxAdviseResponsedQueryResp = "('e, 'r) Mux"
type_synonym ('e, 'q) MuxAdviseAckedQueryReq = "('e, 'q) Mux"
type_synonym ('e, 'r) MuxAdviseAckedQueryResp = "('e, 'r) Mux"
type_synonym ('e, 'q) MuxFetchBlockReq = "('e, 'q) Mux"
type_synonym ('e, 'r) MuxFetchBlockResp = "('e, 'r) Mux"
type_synonym ('e, 'q) MuxFetchAckedQueryReq = "('e, 'q) Mux"
type_synonym ('e, 'r) MuxFetchAckedQueryResp = "('e, 'r) Mux"
type_synonym ('e, 'q) MuxSignBillingReq = "('e, 'q) Mux"
type_synonym ('e, 'r) MuxSignBillingResp = "('e, 'r) Mux"

text \<open>
  The registry stores pointers to \<open>ChainRPCService\<close> objects. A pointer is an address;
  the objects live in a store beside the service. The store also keeps a log of every
  method call made on an object (the address and the method's name), in call order.
\<close>

type_synonym ptr = nat

record MuxService =
  ServiceName :: string
  serviceMap :: "DatabaseID \<rightharpoonup> ptr"

record 'c store =
  objects :: "ptr \<Rightarrow> 'c"
  calls :: "(ptr \<times> string) list"

text \<open>
  A method of \<open>ChainRPCService\<close> reads and updates its receiver, reads the inner request
  and fills the inner response it is given, and returns an error. The methods themselves
  are parameters of the routing methods.
\<close>

type_synonym ('c, 'q, 'r) chain_method = "'c \<Rightarrow> 'q \<Rightarrow> 'r \<Rightarrow> error option \<times> 'c \<times> 'r"

text \<open>The call \<open>v.(*ChainRPCService).name(&q, &r)\<close> on the object at address \<open>v\<close>.\<close>

definition invoke ::
  "string \<Rightarrow> ('c, 'q, 'r) chain_method \<Rightarrow> ptr \<Rightarrow> 'q \<Rightarrow> 'r \<Rightarrow> 'c store
     \<Rightarrow> error option \<times> 'r \<times> 'c store" where
  "invoke name m v q r w =
     (case m (objects w v) q r of
        (err, c', r') \<Rightarrow>
          (err, r', w\<lparr>objects := (objects w)(v := c'), calls := calls w @ [(v, name)]\<rparr>))"

subsection \<open>Registry\<close>

text \<open>
  \<open>NewMuxService\<close> builds a service with an empty registry and registers it with the RPC
  server under its name. The server's \<open>RegisterService\<close> is a parameter, acting on a
  server state \<open>'srv\<close>; the service and the server as updated are returned.
\<close>

definition NewMuxService ::
  "(string \<Rightarrow> MuxService \<Rightarrow> 'srv \<Rightarrow> 'srv) \<Rightarrow> string \<Rightarrow> 'srv \<Rightarrow> MuxService \<times> 'srv" where
  "NewMuxService RegisterService serviceName server =
     (let service = \<lparr>ServiceName = serviceName, serviceMap = Map.empty\<rparr>
      in (service, RegisterService serviceName service server))"

definition register :: "MuxService \<Rightarrow> DatabaseID \<Rightarrow> ptr \<Rightarrow> MuxService" where
  "register s dbid service = s\<lparr>serviceMap := (serviceMap s)(dbid \<mapsto> service)\<rparr>"

definition unregister :: "MuxService \<Rightarrow> DatabaseID \<Rightarrow> MuxService" where
  "unregister s dbid = s\<lparr>serviceMap := (serviceMap s)(dbid := None)\<rparr>"

subsection \<open>Routing methods\<close>

text \<open>
  Each routing method takes the request and the response object the caller supplies and
  returns the error together with the response object and the store as the call leaves
  them. The request and the response are the objects the RPC server allocates for the
  call, so neither is nil, and the registry holds the addresses of live instances. A
  routing method reads the registry and never writes it.
\<close>

definition AdviseNewBlock ::
  "('c, 'q, 'r) chain_method \<Rightarrow> MuxService \<Rightarrow> ('e, 'q) MuxAdviseNewBlockReq
     \<Rightarrow> ('e, 'r) MuxAdviseNewBlockResp \<Rightarrow> 'c store
     \<Rightarrow> error option \<times> ('e, 'r) MuxAdviseNewBlockResp \<times> 'c store" where
  "AdviseNewBlock m s req resp w =
     (case serviceMap s (DatabaseID req) of
        Some v \<Rightarrow>
          (let resp1 = resp\<lparr>Envelope := Envelope req\<rparr>;
               resp2 = resp1\<lparr>DatabaseID := DatabaseID req\<rparr>
           in case invoke ''AdviseNewBlock'' m v (Inner req) (Inner resp2) w of
                (err, r', w') \<Rightarrow> (err, resp2\<lparr>Inner := r'\<rparr>, w'))
      | None \<Rightarrow> (Some ErrUnknownMuxRequest, resp, w))"

definition AdviseBinLog ::
  "('c, 'q, 'r) chain_method \<Rightarrow> MuxService \<Rightarrow> ('e, 'q) MuxAdviseBinLogReq
     \<Rightarrow> ('e, 'r) MuxAdviseBinLogResp \<Rightarrow> 'c store
     \<Rightarrow> error option \<times> ('e, 'r) MuxAdviseBinLogResp \<times> 'c store" where
  "AdviseBinLog m s req resp w =
     (case serviceMap s (DatabaseID req) of
        Some v \<Rightarrow>
          (let resp1 = resp\<lparr>Envelope := Envelope req\<rparr>;
               resp2 = resp1\<lparr>DatabaseID := DatabaseID req\<rparr>
           in case invoke ''AdviseBinLog'' m v (Inner req) (Inner resp2) w of
                (err, r', w') \<Rightarrow> (err, resp2\<lparr>Inner := r'\<rparr>, w'))
      | None \<Rightarrow> (Some ErrUnknownMuxRequest, resp, w))"

definition AdviseResponsedQuery ::
  "('c, 'q, 'r) chain_method \<Rightarrow> MuxService \<Rightarrow> ('e, 'q) MuxAdviseResponsedQueryReq
     \<Rightarrow> ('e, 'r) MuxAdviseResponsedQueryResp \<Rightarrow> 'c store
     \<Rightarrow> error option \<times> ('e, 'r) MuxAdviseResponsedQueryResp \<times> 'c store" where
  "AdviseResponsedQuery m s req resp w =
     (case serviceMap s (DatabaseID req) of
        Some v \<Rightarrow>
          (let resp1 = resp\<lparr>Envelope := Envelope req\<rparr>;
               resp2 = resp1\<lparr>DatabaseID := DatabaseID req\<rparr>
           in case invoke ''AdviseResponsedQuery'' m v (Inner req) (Inner resp2) w of
                (err, r', w') \<Rightarrow> (err, resp2\<lparr>Inner := r'\<rparr>, w'))
      | None \<Rightarrow> (Some ErrUnknownMuxRequest, resp, w))"

definition AdviseAckedQuery ::
  "('c, 'q, 'r) chain_method \<Rightarrow> MuxService \<Rightarrow> ('e, 'q) MuxAdviseAckedQueryReq
     \<Rightarrow> ('e, 'r) MuxAdviseAckedQueryResp \<Rightarrow> 'c store
     \<Rightarrow> error option \<times> ('e, 'r) MuxAdviseAckedQueryResp \<times> 'c store" where
  "AdviseAckedQuery m s req resp w =
     (case serviceMap s (DatabaseID req) of
        Some v \<Rightarrow>
          (let resp1 = resp\<lparr>Envelope := Envelope req\<rparr>;
               resp2 = resp1\<lparr>DatabaseID := DatabaseID req\<rparr>
           in case invoke ''AdviseAckedQuery'' m v (Inner req) (Inner resp2) w of
                (err, r', w') \<Rightarrow> (err, resp2\<lparr>Inner := r'\<rparr>, w'))
      | None \<Rightarrow> (Some ErrUnknownMuxRequest, resp, w))"

definition FetchBlock ::
  "('c, 'q, 'r) chain_method \<Rightarrow> MuxService \<Rightarrow> ('e, 'q) MuxFetchBlockReq
     \<Rightarrow> ('e, 'r) MuxFetchBlockResp \<Rightarrow> 'c store
     \<Rightarrow> error option \<times> ('e, 'r) MuxFetchBlockResp \<times> 'c store" where
  "FetchBlock m s req resp w =
     (case serviceMap s (DatabaseID req) of
        Some v \<Rightarrow>
          (let resp1 = resp\<lparr>Envelope := Envelope req\<rparr>;
               resp2 = resp1\<lparr>DatabaseID := DatabaseID req\<rparr>
           in case invoke ''FetchBlock'' m v (Inner req) (Inner resp2) w of
                (err, r', w') \<Rightarrow> (err, resp2\<lparr>Inner := r'\<rparr>, w'))
      | None \<Rightarrow> (Some ErrUnknownMuxRequest, resp, w))"

definition FetchAckedQuery ::
  "('c, 'q, 'r) chain_method \<Rightarrow> MuxService \<Rightarrow> ('e, 'q) MuxFetchAckedQueryReq
     \<Rightarrow> ('e, 'r) MuxFetchAckedQueryResp \<Rightarrow> 'c store
     \<Rightarrow> error option \<times> ('e, 'r) MuxFetchAckedQueryResp \<times> 'c store" where
  "FetchAckedQuery m s req resp w =
     (case serviceMap s (DatabaseID req) of
        Some v \<Rightarrow>
          (let resp1 = resp\<lparr>Envelope := Envelope req\<rparr>;
               resp2 = resp1\<lparr>DatabaseID := DatabaseID req\<rparr>
           in case invoke ''FetchAckedQuery'' m v (Inner req) (Inner resp2) w of
                (err, r', w') \<Rightarrow> (err, resp2\<lparr>Inner := r'\<rparr>, w'))
      | None \<Rightarrow> (Some ErrUnknownMuxRequest, resp, w))"

definition SignBilling ::
  "('c, 'q, 'r) chain_method \<Rightarrow> MuxService \<Rightarrow> ('e, 'q) MuxSignBillingReq
     \<Rightarrow> ('e, 'r) MuxSignBillingResp \<Rightarrow> 'c store
     \<Rightarrow> error option \<times> ('e, 'r) MuxSignBillingResp \<times> 'c store" where
  "SignBilling m s req resp w =
     (case serviceMap s (DatabaseID req) of
        Some v \<Rightarrow>
          (let resp1 = resp\<lparr>Envelope := Envelope req\<rparr>;
               resp2 = resp1\<lparr>DatabaseID := DatabaseID req\<rparr>
           in case invoke ''SignBilling'' m v (Inner req) (Inner resp2) w of
                (err, r', w') \<Rightarrow> (err, resp2\<lparr>Inner := r'\<rparr>, w'))
      | None \<Rightarrow> (Some ErrUnknownMuxRequest, resp, w))"

subsection \<open>Calls by name\<close>

text \<open>
  \<open>NewMuxService\<close> registers the service with the RPC server, which calls the exported
  methods of \<open>MuxService\<close> by name. \<open>register\<close> and \<open>unregister\<close> are not exported. A
  name outside the method set finds no method (\<open>None\<close>). The chain methods are taken at
  one request and one response type here.
\<close>

record ('c, 'q, 'r) ChainRPCService =
  chain_AdviseNewBlock :: "('c, 'q, 'r) chain_method"
  chain_AdviseBinLog :: "('c, 'q, 'r) chain_method"
  chain_AdviseResponsedQuery :: "('c, 'q, 'r) chain_method"
  chain_AdviseAckedQuery :: "('c, 'q, 'r) chain_method"
  chain_FetchBlock :: "('c, 'q, 'r) chain_method"
  chain_FetchAckedQuery :: "('c, 'q, 'r) chain_method"
  chain_SignBilling :: "('c, 'q, 'r) chain_method"

definition MuxService_call ::
  "('c, 'q, 'r) ChainRPCService \<Rightarrow> string \<Rightarrow> MuxService \<Rightarrow> ('e, 'q) Mux \<Rightarrow> ('e, 'r) Mux
     \<Rightarrow> 'c store \<Rightarrow> (error option \<times> ('e, 'r) Mux \<times> 'c store) option" where
  "MuxService_call ops name s req resp w =
     (if name = ''AdviseNewBlock'' then
        Some (AdviseNewBlock (chain_AdviseNewBlock ops) s req resp w)
      else if name = ''AdviseBinLog'' then
        Some (AdviseBinLog (chain_AdviseBinLog ops) s req resp w)
      else if name = ''AdviseResponsedQuery'' then
        Some (AdviseResponsedQuery (chain_AdviseResponsedQuery ops) s req resp w)
      else if name = ''AdviseAckedQuery'' then
        Some (AdviseAckedQuery (chain_AdviseAckedQuery ops) s req resp w)
      else if name = ''FetchBlock'' then
        Some (FetchBlock (chain_FetchBlock ops) s req resp w)
      else if name = ''FetchAckedQuery'' then
        Some (FetchAckedQuery (chain_FetchAckedQuery ops) s req resp w)
      else if name = ''SignBilling'' then
        Some (SignBilling (chain_SignBilling ops) s req resp w)
      else None)"

subsection \<open>What forwarding a call means\<close>

text \<open>
  The outcome of forwarding a call to the instance at address \<open>v\<close>: the instance's
  method runs once on the inner request and the inner response, its error is the
  result, the response carries the request's envelope and database id around the inner
  response the instance left, and the call is logged against \<open>v\<close>.
\<close>

definition forwarded ::
  "string \<Rightarrow> ('c, 'q, 'r) chain_method \<Rightarrow> ptr \<Rightarrow> ('e, 'q) Mux \<Rightarrow> ('e, 'r) Mux \<Rightarrow> 'c store
     \<Rightarrow> error option \<times> ('e, 'r) Mux \<times> 'c store" where
  "forwarded name m v req resp w =
     (case m (objects w v) (Inner req) (Inner resp) of
        (err, c', r') \<Rightarrow>
          (err,
           \<lparr>Envelope = Envelope req, DatabaseID = DatabaseID req, Inner = r'\<rparr>,
           \<lparr>objects = (objects w)(v := c'), calls = calls w @ [(v, name)]\<rparr>))"

subsection \<open>An example node\<close>

text \<open>
  A service started on a server that lists the names of its services, and a node that
  hosts database \<open>db1\<close> on the instance at address 7. The example instance
  counts the calls it receives, copies the inner request into the inner response, and
  rejects the request 0.
\<close>

definition counting_method :: "(nat, nat, nat) chain_method" where
  "counting_method c q r = (if q = 0 then Some (Err ''rejected'') else None, Suc c, q)"


definition counting_service :: "(nat, nat, nat) ChainRPCService" where
  "counting_service =
     \<lparr>chain_AdviseNewBlock = counting_method, chain_AdviseBinLog = counting_method,
      chain_AdviseResponsedQuery = counting_method, chain_AdviseAckedQuery = counting_method,
      chain_FetchBlock = counting_method, chain_FetchAckedQuery = counting_method,
      chain_SignBilling = counting_method\<rparr>"

definition started :: MuxService where
  "started = fst (NewMuxService (\<lambda>name service server. name # server) ''sqlchain'' [])"

definition node :: MuxService where
  "node = register started ''db1'' 7"

definition idle :: "nat store" where
  "idle = \<lparr>objects = (\<lambda>_. 0), calls = []\<rparr>"

definition request :: "DatabaseID \<Rightarrow> nat \<Rightarrow> (string, nat) Mux" where
  "request dbid q = \<lparr>Envelope = ''node-1'', DatabaseID = dbid, Inner = q\<rparr>"

definition blank :: "(string, nat) Mux" where
  "blank = \<lparr>Envelope = [], DatabaseID = [], Inner = 0\<rparr>"

subsection \<open>The message catalog\<close>

text \<open>
  Modelled from the spec: the operations of the specification's message catalog (its
  section 4.3), by name and in the order of its table.
\<close>

definition message_catalog :: "string list" where
  "message_catalog =
     [''AdviseNewBlock'', ''AdviseBinLog'', ''AdviseResponsedQuery'', ''AdviseAckedQuery'',
      ''FetchBlock'', ''FetchLastBlock'', ''FetchBlockByCount'', ''FetchAckedQuery'',
      ''SignBilling'']"

section \<open>The query lifecycle of a chain instance\<close>

text \<open>
  Modelled from the spec: the methods of \<open>ChainRPCService\<close> and the chain behind them
  (sqlchain/rpc.go, sqlchain/chain.go) are not among the sources. The specification's
  message catalog and lifecycle state machine say: a query is created \<open>Submitted\<close>;
  \<open>AdviseResponsedQuery\<close> moves it from \<open>Submitted\<close> to \<open>Responsed\<close> and rejects a query
  that is unknown or already past this stage; \<open>AdviseAckedQuery\<close> moves it from
  \<open>Responsed\<close> to \<open>Acked\<close> and rejects a query not yet \<open>Responsed\<close>; an \<open>Acked\<close> query is
  eligible for inclusion in a block and \<open>Committed\<close> once a block holding it is appended
  (\<open>AdviseNewBlock\<close> appends a block only if it extends the head); a query that fails
  verification at a stage moves to the terminal \<open>Rejected\<close>. The outcome of verification
  and of the head check travel with the message as booleans.
\<close>

datatype query_state = Submitted | Responsed | Acked | Committed | Rejected

type_synonym query_id = nat

type_synonym chain_state = "query_id \<rightharpoonup> query_state"

record query_advice =
  query :: query_id
  verifies :: bool

record block_advice =
  extends_head :: bool
  included :: "query_id list"

text \<open>Modelled from the spec: \<open>ChainRPCService.AdviseResponsedQuery\<close>, which is missing.\<close>

definition spec_AdviseResponsedQuery :: "(chain_state, query_advice, unit) chain_method" where
  "spec_AdviseResponsedQuery c q r =
     (if c (query q) = Some Submitted then
        (if verifies q then (None, c(query q \<mapsto> Responsed), r)
         else (Some (Err ''verification failed''), c(query q \<mapsto> Rejected), r))
      else (Some (Err ''query unknown or past this stage''), c, r))"

text \<open>Modelled from the spec: \<open>ChainRPCService.AdviseAckedQuery\<close>, which is missing.\<close>

definition spec_AdviseAckedQuery :: "(chain_state, query_advice, unit) chain_method" where
  "spec_AdviseAckedQuery c q r =
     (if c (query q) = Some Responsed then
        (if verifies q then (None, c(query q \<mapsto> Acked), r)
         else (Some (Err ''verification failed''), c(query q \<mapsto> Rejected), r))
      else (Some (Err ''query not yet responsed''), c, r))"

text \<open>Modelled from the spec: \<open>ChainRPCService.AdviseNewBlock\<close>, which is missing.\<close>

definition spec_AdviseNewBlock :: "(chain_state, block_advice, unit) chain_method" where
  "spec_AdviseNewBlock c b r =
     (if extends_head b then
        (None,
         (\<lambda>k. if k \<in> set (included b) \<and> c k = Some Acked then Some Committed else c k),
         r)
      else (Some (Err ''height or predecessor mismatch''), c, r))"

text \<open>
  Modelled from the spec: the arrows of the lifecycle state machine. \<open>advances a b\<close>: \<open>b\<close> is \<open>a\<close>, or one arrow after \<open>a\<close>, or
  \<open>Rejected\<close> from a state that is not terminal. \<open>forward a b\<close>: \<open>b\<close> is reachable from \<open>a\<close>
  along the arrows.
\<close>

fun next_state :: "query_state \<Rightarrow> query_state option" where
  "next_state Submitted = Some Responsed"
| "next_state Responsed = Some Acked"
| "next_state Acked = Some Committed"
| "next_state Committed = None"
| "next_state Rejected = None"

fun stage :: "query_state \<Rightarrow> nat" where
  "stage Submitted = 0"
| "stage Responsed = 1"
| "stage Acked = 2"
| "stage Committed = 3"
| "stage Rejected = 4"

definition advances :: "query_state \<Rightarrow> query_state \<Rightarrow> bool" where
  "advances a b = (b = a \<or> next_state a = Some b \<or> (b = Rejected \<and> next_state a \<noteq> None))"

definition forward :: "query_state \<Rightarrow> query_state \<Rightarrow> bool" where
  "forward a b = (b = a \<or> (next_state a \<noteq> None \<and> stage a < stage b))"

text \<open>
  A message for one chain, sent through the routing method of its kind with an empty
  envelope and a fresh response object; \<open>deliver_all\<close> sends a sequence of them.
\<close>

datatype chain_msg =
  ResponsedQuery query_advice
| AckedQuery query_advice
| NewBlock block_advice

definition fresh :: "(unit, unit) Mux" where
  "fresh = \<lparr>Envelope = (), DatabaseID = [], Inner = ()\<rparr>"

definition deliver ::
  "MuxService \<Rightarrow> DatabaseID \<Rightarrow> chain_msg \<Rightarrow> chain_state store
     \<Rightarrow> error option \<times> chain_state store" where
  "deliver s dbid msg w =
     (case msg of
        ResponsedQuery q \<Rightarrow>
          (case AdviseResponsedQuery spec_AdviseResponsedQuery s
                  \<lparr>Envelope = (), DatabaseID = dbid, Inner = q\<rparr> fresh w of
             (err, resp, w') \<Rightarrow> (err, w'))
      | AckedQuery q \<Rightarrow>
          (case AdviseAckedQuery spec_AdviseAckedQuery s
                  \<lparr>Envelope = (), DatabaseID = dbid, Inner = q\<rparr> fresh w of
             (err, resp, w') \<Rightarrow> (err, w'))
      | NewBlock b \<Rightarrow>
          (case AdviseNewBlock spec_AdviseNewBlock s
                  \<lparr>Envelope = (), DatabaseID = dbid, Inner = b\<rparr> fresh w of
             (err, resp, w') \<Rightarrow> (err, w')))"

fun deliver_all ::
  "MuxService \<Rightarrow> DatabaseID \<Rightarrow> chain_msg list \<Rightarrow> chain_state store \<Rightarrow> chain_state store" where
  "deliver_all s dbid [] w = w"
| "deliver_all s dbid (msg # msgs) w = deliver_all s dbid msgs (snd (deliver s dbid msg w))"

text \<open>An example chain at address 7 that knows query 1 as \<open>Submitted\<close>.\<close>

definition one_query :: "chain_state store" where
  "one_query = \<lparr>objects = (\<lambda>_. [1 \<mapsto> Submitted]), calls = []\<rparr>"

section \<open>Routing lemmas\<close>

lemma AdviseNewBlock_unknown:
  "serviceMap s (DatabaseID req) = None
     \<Longrightarrow> AdviseNewBlock m s req resp w = (Some ErrUnknownMuxRequest, resp, w)"
  by (simp add: AdviseNewBlock_def)

lemma AdviseBinLog_unknown:
  "serviceMap s (DatabaseID req) = None
     \<Longrightarrow> AdviseBinLog m s req resp w = (Some ErrUnknownMuxRequest, resp, w)"
  by (simp add: AdviseBinLog_def)

lemma AdviseResponsedQuery_unknown:
  "serviceMap s (DatabaseID req) = None
     \<Longrightarrow> AdviseResponsedQuery m s req resp w = (Some ErrUnknownMuxRequest, resp, w)"
  by (simp add: AdviseResponsedQuery_def)

lemma AdviseAckedQuery_unknown:
  "serviceMap s (DatabaseID req) = None
     \<Longrightarrow> AdviseAckedQuery m s req resp w = (Some ErrUnknownMuxRequest, resp, w)"
  by (simp add: AdviseAckedQuery_def)

lemma FetchBlock_unknown:
  "serviceMap s (DatabaseID req) = None
     \<Longrightarrow> FetchBlock m s req resp w = (Some ErrUnknownMuxRequest, resp, w)"
  by (simp add: FetchBlock_def)

lemma FetchAckedQuery_unknown:
  "serviceMap s (DatabaseID req) = None
     \<Longrightarrow> FetchAckedQuery m s req resp w = (Some ErrUnknownMuxRequest, resp, w)"
  by (simp add: FetchAckedQuery_def)

lemma SignBilling_unknown:
  "serviceMap s (DatabaseID req) = None
     \<Longrightarrow> SignBilling m s req resp w = (Some ErrUnknownMuxRequest, resp, w)"
  by (simp add: SignBilling_def)

lemmas unknown_chain =
  AdviseNewBlock_unknown AdviseBinLog_unknown AdviseResponsedQuery_unknown
  AdviseAckedQuery_unknown FetchBlock_unknown FetchAckedQuery_unknown SignBilling_unknown

lemma AdviseNewBlock_known:
  "serviceMap s (DatabaseID req) = Some v
     \<Longrightarrow> AdviseNewBlock m s req resp w = forwarded ''AdviseNewBlock'' m v req resp w"
  by (simp add: AdviseNewBlock_def invoke_def forwarded_def split: prod.splits)

lemma AdviseBinLog_known:
  "serviceMap s (DatabaseID req) = Some v
     \<Longrightarrow> AdviseBinLog m s req resp w = forwarded ''AdviseBinLog'' m v req resp w"
  by (simp add: AdviseBinLog_def invoke_def forwarded_def split: prod.splits)

lemma AdviseResponsedQuery_known:
  "serviceMap s (DatabaseID req) = Some v
     \<Longrightarrow> AdviseResponsedQuery m s req resp w
         = forwarded ''AdviseResponsedQuery'' m v req resp w"
  by (simp add: AdviseResponsedQuery_def invoke_def forwarded_def split: prod.splits)

lemma AdviseAckedQuery_known:
  "serviceMap s (DatabaseID req) = Some v
     \<Longrightarrow> AdviseAckedQuery m s req resp w = forwarded ''AdviseAckedQuery'' m v req resp w"
  by (simp add: AdviseAckedQuery_def invoke_def forwarded_def split: prod.splits)

lemma FetchBlock_known:
  "serviceMap s (DatabaseID req) = Some v
     \<Longrightarrow> FetchBlock m s req resp w = forwarded ''FetchBlock'' m v req resp w"
  by (simp add: FetchBlock_def invoke_def forwarded_def split: prod.splits)

lemma FetchAckedQuery_known:
  "serviceMap s (DatabaseID req) = Some v
     \<Longrightarrow> FetchAckedQuery m s req resp w = forwarded ''FetchAckedQuery'' m v req resp w"
  by (simp add: FetchAckedQuery_def invoke_def forwarded_def split: prod.splits)

lemma SignBilling_known:
  "serviceMap s (DatabaseID req) = Some v
     \<Longrightarrow> SignBilling m s req resp w = forwarded ''SignBilling'' m v req resp w"
  by (simp add: SignBilling_def invoke_def forwarded_def split: prod.splits)

lemmas known_chain =
  AdviseNewBlock_known AdviseBinLog_known AdviseResponsedQuery_known
  AdviseAckedQuery_known FetchBlock_known FetchAckedQuery_known SignBilling_known


lemma forwarded_envelope:
  "Envelope (fst (snd (forwarded name m v req resp w))) = Envelope req"
  by (simp add: forwarded_def split: prod.splits)

lemma forwarded_database:
  "DatabaseID (fst (snd (forwarded name m v req resp w))) = DatabaseID req"
  by (simp add: forwarded_def split: prod.splits)

lemma forwarded_calls:
  "calls (snd (snd (forwarded name m v req resp w))) = calls w @ [(v, name)]"
  by (simp add: forwarded_def split: prod.splits)

lemma forwarded_other_object:
  "a \<noteq> v \<Longrightarrow> objects (snd (snd (forwarded name m v req resp w))) a = objects w a"
  by (simp add: forwarded_def split: prod.splits)

lemmas example_defs =
  node_def idle_def request_def blank_def counting_method_def
  started_def NewMuxService_def register_def unregister_def

section \<open>Nil-safety of the configuration predicates\<close>

lemma nil_safe_and:
  "and_also (Inr (c \<noteq> None)) (and_also (not_nil (field f c)) (load (field f c)))
     = Inr (case c of None \<Rightarrow> False | Some cfg \<Rightarrow> flag (f cfg))"
  by (cases c) (auto simp: and_also_def not_nil_def load_def field_def deref_def flag_def
      split: option.splits)

text \<open>
  C10. On every receiver, nil or not, \<open>ProjectMiscConfig.IsEnabled\<close>, \<open>SupportSignUp\<close>,
  \<open>ShouldVerifyAfterSignUp\<close> and \<open>ProjectOAuthConfig.IsEnabled\<close> return without a nil
  dereference; the result is false when the receiver is nil or the flag pointer is nil,
  and the pointed-to boolean otherwise.
\<close>

theorem config_predicates_nil_safe:
  "ProjectMiscConfig_IsEnabled c
     = Inr (case c of None \<Rightarrow> False | Some cfg \<Rightarrow> flag (ProjectMiscConfig.Enabled cfg))
   \<and> SupportSignUp c
     = Inr (case c of None \<Rightarrow> False | Some cfg \<Rightarrow> flag (EnableSignUp cfg))
   \<and> ShouldVerifyAfterSignUp c
     = Inr (case c of None \<Rightarrow> False | Some cfg \<Rightarrow> flag (EnableSignUpVerification cfg))
   \<and> ProjectOAuthConfig_IsEnabled oc
     = Inr (case oc of None \<Rightarrow> False | Some cfg \<Rightarrow> flag (ProjectOAuthConfig.Enabled cfg))"
  unfolding ProjectMiscConfig_IsEnabled_def SupportSignUp_def ShouldVerifyAfterSignUp_def
    ProjectOAuthConfig_IsEnabled_def nil_safe_and
  by simp

theorem config_predicates_nil_safe_witness:
  "ProjectMiscConfig_IsEnabled None = Inr False
   \<and> SupportSignUp (Some \<lparr>Alias = ''a'', Enabled = None, EnableSignUp = Some True,
         EnableSignUpVerification = None, SessionAge = 0\<rparr>) = Inr True
   \<and> ShouldVerifyAfterSignUp (Some \<lparr>Alias = ''a'', Enabled = None, EnableSignUp = Some True,
         EnableSignUpVerification = None, SessionAge = 0\<rparr>) = Inr False
   \<and> ProjectOAuthConfig_IsEnabled
         (Some \<lparr>ClientID = ''id'', ClientSecret = ''s'', Enabled = Some False\<rparr>) = Inr False"
  using config_predicates_nil_safe [of None
      "Some \<lparr>ClientID = ''id'', ClientSecret = ''s'', Enabled = Some False\<rparr>"]
    config_predicates_nil_safe [of
      "Some \<lparr>Alias = ''a'', Enabled = None, EnableSignUp = Some True,
         EnableSignUpVerification = None, SessionAge = 0\<rparr>"
      "Some \<lparr>ClientID = ''id'', ClientSecret = ''s'', Enabled = Some False\<rparr>"]
  by (simp add: flag_def)

section \<open>Routing\<close>

text \<open>
  C1. When the request's database id has no entry in the registry, each of the seven
  routing methods returns \<open>ErrUnknownMuxRequest\<close>, hands back the response object exactly
  as the caller supplied it, and leaves the store as it was: no object changes and no
  call is logged, so no method of any chain instance runs.
\<close>

theorem unknown_chain_not_dispatched:
  assumes "serviceMap s (DatabaseID req) = None"
  shows "AdviseNewBlock m1 s req resp w = (Some ErrUnknownMuxRequest, resp, w)
       \<and> AdviseBinLog m2 s req resp w = (Some ErrUnknownMuxRequest, resp, w)
       \<and> AdviseResponsedQuery m3 s req resp w = (Some ErrUnknownMuxRequest, resp, w)
       \<and> AdviseAckedQuery m4 s req resp w = (Some ErrUnknownMuxRequest, resp, w)
       \<and> FetchBlock m5 s req resp w = (Some ErrUnknownMuxRequest, resp, w)
       \<and> FetchAckedQuery m6 s req resp w = (Some ErrUnknownMuxRequest, resp, w)
       \<and> SignBilling m7 s req resp w = (Some ErrUnknownMuxRequest, resp, w)"
  using assms by (simp add: unknown_chain)

theorem unknown_chain_not_dispatched_witness:
  "serviceMap node (DatabaseID (request ''db2'' 5)) = None
   \<and> AdviseNewBlock counting_method node (request ''db2'' 5) blank idle
       = (Some ErrUnknownMuxRequest, blank, idle)
   \<and> AdviseBinLog counting_method node (request ''db2'' 5) blank idle
       = (Some ErrUnknownMuxRequest, blank, idle)
   \<and> AdviseResponsedQuery counting_method node (request ''db2'' 5) blank idle
       = (Some ErrUnknownMuxRequest, blank, idle)
   \<and> AdviseAckedQuery counting_method node (request ''db2'' 5) blank idle
       = (Some ErrUnknownMuxRequest, blank, idle)
   \<and> FetchBlock counting_method node (request ''db2'' 5) blank idle
       = (Some ErrUnknownMuxRequest, blank, idle)
   \<and> FetchAckedQuery counting_method node (request ''db2'' 5) blank idle
       = (Some ErrUnknownMuxRequest, blank, idle)
   \<and> SignBilling counting_method node (request ''db2'' 5) blank idle
       = (Some ErrUnknownMuxRequest, blank, idle)"
proof -
  have h: "serviceMap node (DatabaseID (request ''db2'' 5)) = None"
    by (simp add: example_defs)
  show ?thesis
    by (rule conjI [OF h unknown_chain_not_dispatched [OF h]])
qed

text \<open>
  C3. After \<open>unregister s dbid\<close>, each of the seven routing methods fails with
  \<open>ErrUnknownMuxRequest\<close> on a request for \<open>dbid\<close>, without touching the response or the
  store. \<open>unregister\<close> returns no error, and on an id that has no binding it leaves the
  service exactly as it was.
\<close>

theorem unregister_then_unknown:
  "(DatabaseID req = dbid \<longrightarrow>
      AdviseNewBlock m1 (unregister s dbid) req resp w = (Some ErrUnknownMuxRequest, resp, w)
    \<and> AdviseBinLog m2 (unregister s dbid) req resp w = (Some ErrUnknownMuxRequest, resp, w)
    \<and> AdviseResponsedQuery m3 (unregister s dbid) req resp w
        = (Some ErrUnknownMuxRequest, resp, w)
    \<and> AdviseAckedQuery m4 (unregister s dbid) req resp w
        = (Some ErrUnknownMuxRequest, resp, w)
    \<and> FetchBlock m5 (unregister s dbid) req resp w = (Some ErrUnknownMuxRequest, resp, w)
    \<and> FetchAckedQuery m6 (unregister s dbid) req resp w
        = (Some ErrUnknownMuxRequest, resp, w)
    \<and> SignBilling m7 (unregister s dbid) req resp w = (Some ErrUnknownMuxRequest, resp, w))
   \<and> (serviceMap s dbid = None \<longrightarrow> unregister s dbid = s)"
proof (intro conjI impI)
  assume "serviceMap s dbid = None"
  then have "(serviceMap s)(dbid := None) = serviceMap s"
    by (simp add: fun_upd_idem_iff)
  then show "unregister s dbid = s"
    by (simp add: unregister_def)
qed (simp_all add: unknown_chain unregister_def)

theorem unregister_then_unknown_witness:
  "DatabaseID (request ''db1'' 5) = ''db1''
   \<and> serviceMap node ''db1'' = Some 7
   \<and> AdviseNewBlock counting_method (unregister node ''db1'') (request ''db1'' 5) blank idle
       = (Some ErrUnknownMuxRequest, blank, idle)
   \<and> SignBilling counting_method (unregister node ''db1'') (request ''db1'' 5) blank idle
       = (Some ErrUnknownMuxRequest, blank, idle)
   \<and> serviceMap started ''db1'' = None
   \<and> unregister started ''db1'' = started"
proof -
  have h1: "DatabaseID (request ''db1'' 5) = ''db1''"
    by (simp add: request_def)
  have h2: "serviceMap node ''db1'' = Some 7"
    by (simp add: example_defs)
  have h3: "serviceMap started ''db1'' = None"
    by (simp add: started_def NewMuxService_def)
  note a = unregister_then_unknown [where req = "request ''db1'' 5" and dbid = "''db1''"
      and s = node and resp = blank and w = idle and ?m1.0 = counting_method
      and ?m7.0 = counting_method, THEN conjunct1, rule_format, OF h1]
  note b = unregister_then_unknown [where s = started
      and dbid = "''db1''", THEN conjunct2, rule_format, OF h3]
  from a b h1 h2 h3 show ?thesis
    by blast
qed

text \<open>
  C4. When the request's database id is registered, the response each of the seven
  routing methods hands back has the request's \<open>Envelope\<close> and the request's
  \<open>DatabaseID\<close>, whatever the chain instance does and whatever the response held before.
\<close>

theorem registered_response_echoes_request:
  assumes "serviceMap s (DatabaseID req) = Some v"
  shows "Envelope (fst (snd (AdviseNewBlock m1 s req resp w))) = Envelope req
       \<and> DatabaseID (fst (snd (AdviseNewBlock m1 s req resp w))) = DatabaseID req
       \<and> Envelope (fst (snd (AdviseBinLog m2 s req resp w))) = Envelope req
       \<and> DatabaseID (fst (snd (AdviseBinLog m2 s req resp w))) = DatabaseID req
       \<and> Envelope (fst (snd (AdviseResponsedQuery m3 s req resp w))) = Envelope req
       \<and> DatabaseID (fst (snd (AdviseResponsedQuery m3 s req resp w))) = DatabaseID req
       \<and> Envelope (fst (snd (AdviseAckedQuery m4 s req resp w))) = Envelope req
       \<and> DatabaseID (fst (snd (AdviseAckedQuery m4 s req resp w))) = DatabaseID req
       \<and> Envelope (fst (snd (FetchBlock m5 s req resp w))) = Envelope req
       \<and> DatabaseID (fst (snd (FetchBlock m5 s req resp w))) = DatabaseID req
       \<and> Envelope (fst (snd (FetchAckedQuery m6 s req resp w))) = Envelope req
       \<and> DatabaseID (fst (snd (FetchAckedQuery m6 s req resp w))) = DatabaseID req
       \<and> Envelope (fst (snd (SignBilling m7 s req resp w))) = Envelope req
       \<and> DatabaseID (fst (snd (SignBilling m7 s req resp w))) = DatabaseID req"
  using assms by (simp add: known_chain forwarded_envelope forwarded_database)

theorem registered_response_echoes_request_witness:
  "serviceMap node (DatabaseID (request ''db1'' 5)) = Some 7
   \<and> Envelope (fst (snd (AdviseNewBlock counting_method node (request ''db1'' 5) blank idle)))
       = ''node-1''
   \<and> DatabaseID (fst (snd (AdviseNewBlock counting_method node (request ''db1'' 5) blank idle)))
       = ''db1''
   \<and> Envelope (fst (snd (SignBilling counting_method node (request ''db1'' 0) blank idle)))
       = ''node-1''
   \<and> DatabaseID (fst (snd (SignBilling counting_method node (request ''db1'' 0) blank idle)))
       = ''db1''"
proof -
  have h: "\<And>q. serviceMap node (DatabaseID (request ''db1'' q)) = Some 7"
    by (simp add: example_defs)
  have e: "\<And>q. Envelope (request ''db1'' q) = ''node-1''"
    "\<And>q. DatabaseID (request ''db1'' q) = ''db1''"
    by (simp_all add: request_def)
  note a = registered_response_echoes_request [OF h [of 5], where resp = blank and w = idle
      and ?m1.0 = counting_method]
  note b = registered_response_echoes_request [OF h [of 0], where resp = blank and w = idle
      and ?m7.0 = counting_method]
  from a b h [of 5] show ?thesis
    unfolding e by blast
qed

text \<open>
  C8. When the request's database id is registered and the chain instance's method
  returns an error, each of the seven routing methods returns that error together with a
  response that already carries the request's \<open>Envelope\<close> and \<open>DatabaseID\<close>: the two
  fields are assigned before the instance is called, which only receives the inner
  response. The call is logged and the instance keeps the state its method left.
\<close>

theorem response_marked_on_instance_error:
  assumes "serviceMap s (DatabaseID req) = Some v"
    and "m (objects w v) (Inner req) (Inner resp) = (Some e, c', r')"
  shows "AdviseNewBlock m s req resp w
           = (Some e, \<lparr>Envelope = Envelope req, DatabaseID = DatabaseID req, Inner = r'\<rparr>,
              \<lparr>objects = (objects w)(v := c'), calls = calls w @ [(v, ''AdviseNewBlock'')]\<rparr>)
       \<and> AdviseBinLog m s req resp w
           = (Some e, \<lparr>Envelope = Envelope req, DatabaseID = DatabaseID req, Inner = r'\<rparr>,
              \<lparr>objects = (objects w)(v := c'), calls = calls w @ [(v, ''AdviseBinLog'')]\<rparr>)
       \<and> AdviseResponsedQuery m s req resp w
           = (Some e, \<lparr>Envelope = Envelope req, DatabaseID = DatabaseID req, Inner = r'\<rparr>,
              \<lparr>objects = (objects w)(v := c'),
               calls = calls w @ [(v, ''AdviseResponsedQuery'')]\<rparr>)
       \<and> AdviseAckedQuery m s req resp w
           = (Some e, \<lparr>Envelope = Envelope req, DatabaseID = DatabaseID req, Inner = r'\<rparr>,
              \<lparr>objects = (objects w)(v := c'), calls = calls w @ [(v, ''AdviseAckedQuery'')]\<rparr>)
       \<and> FetchBlock m s req resp w
           = (Some e, \<lparr>Envelope = Envelope req, DatabaseID = DatabaseID req, Inner = r'\<rparr>,
              \<lparr>objects = (objects w)(v := c'), calls = calls w @ [(v, ''FetchBlock'')]\<rparr>)
       \<and> FetchAckedQuery m s req resp w
           = (Some e, \<lparr>Envelope = Envelope req, DatabaseID = DatabaseID req, Inner = r'\<rparr>,
              \<lparr>objects = (objects w)(v := c'), calls = calls w @ [(v, ''FetchAckedQuery'')]\<rparr>)
       \<and> SignBilling m s req resp w
           = (Some e, \<lparr>Envelope = Envelope req, DatabaseID = DatabaseID req, Inner = r'\<rparr>,
              \<lparr>objects = (objects w)(v := c'), calls = calls w @ [(v, ''SignBilling'')]\<rparr>)"
  using assms by (simp add: known_chain forwarded_def)

theorem response_marked_on_instance_error_witness:
  "serviceMap node (DatabaseID (request ''db1'' 0)) = Some 7
   \<and> counting_method (objects idle 7) (Inner (request ''db1'' 0)) (Inner blank)
       = (Some (Err ''rejected''), 1, 0)
   \<and> AdviseNewBlock counting_method node (request ''db1'' 0) blank idle
       = (Some (Err ''rejected''),
          \<lparr>Envelope = ''node-1'', DatabaseID = ''db1'', Inner = 0\<rparr>,
          \<lparr>objects = (objects idle)(7 := 1), calls = [(7, ''AdviseNewBlock'')]\<rparr>)
   \<and> FetchAckedQuery counting_method node (request ''db1'' 0) blank idle
       = (Some (Err ''rejected''),
          \<lparr>Envelope = ''node-1'', DatabaseID = ''db1'', Inner = 0\<rparr>,
          \<lparr>objects = (objects idle)(7 := 1), calls = [(7, ''FetchAckedQuery'')]\<rparr>)"
proof -
  have h1: "serviceMap node (DatabaseID (request ''db1'' 0)) = Some 7"
    by (simp add: example_defs)
  have h2: "counting_method (objects idle 7) (Inner (request ''db1'' 0)) (Inner blank)
              = (Some (Err ''rejected''), 1, 0)"
    by (simp add: example_defs)
  have e: "Envelope (request ''db1'' 0) = ''node-1''" "DatabaseID (request ''db1'' 0) = ''db1''"
    "calls idle = []"
    by (simp_all add: request_def idle_def)
  note a = response_marked_on_instance_error [where s = node and req = "request ''db1'' 0"
      and v = 7 and m = counting_method and resp = blank and w = idle, OF h1 h2]
  from a h1 h2 show ?thesis
    unfolding e by simp
qed




text \<open>
  C2. \<open>register\<close> is total and returns only the service: it has no error result and asks
  nothing of the registry it is given. Registering \<open>a\<close> and then \<open>b\<close> under one id leaves
  the service as registering \<open>b\<close> alone would. From then on each of the seven routing
  methods, on a request for that id and in any store, forwards the call to the instance
  at \<open>b\<close>: the call is logged against \<open>b\<close>, and when \<open>a\<close> is another address the object at
  \<open>a\<close> is left as it was.
\<close>

theorem register_last_write_wins:
  "register (register s dbid a) dbid b = register s dbid b
   \<and> (DatabaseID req = dbid \<longrightarrow>
        AdviseNewBlock m1 (register (register s dbid a) dbid b) req resp w
          = forwarded ''AdviseNewBlock'' m1 b req resp w
      \<and> AdviseBinLog m2 (register (register s dbid a) dbid b) req resp w
          = forwarded ''AdviseBinLog'' m2 b req resp w
      \<and> AdviseResponsedQuery m3 (register (register s dbid a) dbid b) req resp w
          = forwarded ''AdviseResponsedQuery'' m3 b req resp w
      \<and> AdviseAckedQuery m4 (register (register s dbid a) dbid b) req resp w
          = forwarded ''AdviseAckedQuery'' m4 b req resp w
      \<and> FetchBlock m5 (register (register s dbid a) dbid b) req resp w
          = forwarded ''FetchBlock'' m5 b req resp w
      \<and> FetchAckedQuery m6 (register (register s dbid a) dbid b) req resp w
          = forwarded ''FetchAckedQuery'' m6 b req resp w
      \<and> SignBilling m7 (register (register s dbid a) dbid b) req resp w
          = forwarded ''SignBilling'' m7 b req resp w)
   \<and> calls (snd (snd (forwarded name m b req resp w))) = calls w @ [(b, name)]
   \<and> (a \<noteq> b \<longrightarrow> objects (snd (snd (forwarded name m b req resp w))) a = objects w a)"
proof -
  have r: "serviceMap (register (register s dbid a) dbid b) dbid = Some b"
    by (simp add: register_def)
  have "register (register s dbid a) dbid b = register s dbid b"
    by (simp add: register_def)
  moreover have "DatabaseID req = dbid \<Longrightarrow>
      serviceMap (register (register s dbid a) dbid b) (DatabaseID req) = Some b"
    using r by simp
  ultimately show ?thesis
    by (simp add: known_chain forwarded_calls forwarded_other_object)
qed

theorem register_last_write_wins_witness:
  "DatabaseID (request ''db1'' 5) = ''db1'' \<and> (7::nat) \<noteq> 8
   \<and> AdviseNewBlock counting_method (register (register started ''db1'' 7)
         ''db1'' 8) (request ''db1'' 5) blank idle
       = forwarded ''AdviseNewBlock'' counting_method 8 (request ''db1'' 5) blank idle
   \<and> calls (snd (snd (forwarded ''AdviseNewBlock'' counting_method 8 (request ''db1'' 5)
         blank idle))) = [(8, ''AdviseNewBlock'')]
   \<and> objects (snd (snd (forwarded ''AdviseNewBlock'' counting_method 8 (request ''db1'' 5)
         blank idle))) 7 = 0
   \<and> objects (snd (snd (forwarded ''AdviseNewBlock'' counting_method 8 (request ''db1'' 5)
         blank idle))) 8 = 1"
proof -
  have h1: "DatabaseID (request ''db1'' 5) = ''db1''"
    by (simp add: request_def)
  have h2: "(7::nat) \<noteq> 8"
    by simp
  have e: "calls idle = []" "objects idle 7 = 0"
    by (simp_all add: idle_def)
  have o8: "objects (snd (snd (forwarded ''AdviseNewBlock'' counting_method 8
      (request ''db1'' 5) blank idle))) 8 = 1"
    by (simp add: forwarded_def counting_method_def idle_def)
  note a = register_last_write_wins [where s = started and dbid = "''db1''"
      and a = 7 and b = 8 and req = "request ''db1'' 5" and resp = blank and w = idle
      and ?m1.0 = counting_method and ?m2.0 = counting_method and ?m3.0 = counting_method
      and ?m4.0 = counting_method and ?m5.0 = counting_method and ?m6.0 = counting_method
      and ?m7.0 = counting_method and m = counting_method and name = "''AdviseNewBlock''"]
  from a h1 h2 o8 show ?thesis
    unfolding e append_Nil by blast
qed

section \<open>The method set of the service\<close>

lemma MuxService_call_None_iff:
  "(MuxService_call ops name s req resp w = None)
     = (name \<notin> {''AdviseNewBlock'', ''AdviseBinLog'', ''AdviseResponsedQuery'',
          ''AdviseAckedQuery'', ''FetchBlock'', ''FetchAckedQuery'', ''SignBilling''})"
  by (simp add: MuxService_call_def)

text \<open>
  C6 fails as stated, that every operation of the message catalog has a routing method: on
  the example node, where \<open>db1\<close> is registered, a call of \<open>FetchLastBlock\<close> and a call of
  \<open>FetchBlockByCount\<close> for \<open>db1\<close> find no method of the service.
\<close>

theorem catalog_not_covered:
  "serviceMap node (DatabaseID (request ''db1'' 5)) = Some 7
   \<and> ''FetchLastBlock'' \<in> set message_catalog
   \<and> MuxService_call counting_service ''FetchLastBlock'' node (request ''db1'' 5) blank idle
       = None
   \<and> ''FetchBlockByCount'' \<in> set message_catalog
   \<and> MuxService_call counting_service ''FetchBlockByCount'' node (request ''db1'' 5) blank
         idle = None"
  by (simp add: MuxService_call_def message_catalog_def example_defs counting_service_def)

text \<open>
  C6, as amended. Of the operations of the message catalog, the service has a routing
  method for exactly seven: \<open>AdviseNewBlock\<close>, \<open>AdviseBinLog\<close>, \<open>AdviseResponsedQuery\<close>,
  \<open>AdviseAckedQuery\<close>, \<open>FetchBlock\<close>, \<open>FetchAckedQuery\<close> and \<open>SignBilling\<close>, each calling the
  routing method of that name. \<open>FetchLastBlock\<close> and \<open>FetchBlockByCount\<close> have none, for
  any registry, request and store.
\<close>

theorem seven_operations_routed:
  "filter (\<lambda>name. MuxService_call ops name s req resp w \<noteq> None) message_catalog
     = [''AdviseNewBlock'', ''AdviseBinLog'', ''AdviseResponsedQuery'', ''AdviseAckedQuery'',
        ''FetchBlock'', ''FetchAckedQuery'', ''SignBilling'']
   \<and> filter (\<lambda>name. MuxService_call ops name s req resp w = None) message_catalog
     = [''FetchLastBlock'', ''FetchBlockByCount'']
   \<and> MuxService_call ops ''AdviseNewBlock'' s req resp w
     = Some (AdviseNewBlock (chain_AdviseNewBlock ops) s req resp w)
   \<and> MuxService_call ops ''AdviseBinLog'' s req resp w
     = Some (AdviseBinLog (chain_AdviseBinLog ops) s req resp w)
   \<and> MuxService_call ops ''AdviseResponsedQuery'' s req resp w
     = Some (AdviseResponsedQuery (chain_AdviseResponsedQuery ops) s req resp w)
   \<and> MuxService_call ops ''AdviseAckedQuery'' s req resp w
     = Some (AdviseAckedQuery (chain_AdviseAckedQuery ops) s req resp w)
   \<and> MuxService_call ops ''FetchBlock'' s req resp w
     = Some (FetchBlock (chain_FetchBlock ops) s req resp w)
   \<and> MuxService_call ops ''FetchAckedQuery'' s req resp w
     = Some (FetchAckedQuery (chain_FetchAckedQuery ops) s req resp w)
   \<and> MuxService_call ops ''SignBilling'' s req resp w
     = Some (SignBilling (chain_SignBilling ops) s req resp w)"
proof (intro conjI)
  show "filter (\<lambda>name. MuxService_call ops name s req resp w \<noteq> None) message_catalog
     = [''AdviseNewBlock'', ''AdviseBinLog'', ''AdviseResponsedQuery'', ''AdviseAckedQuery'',
        ''FetchBlock'', ''FetchAckedQuery'', ''SignBilling'']"
    unfolding MuxService_call_None_iff by (simp add: message_catalog_def)
  show "filter (\<lambda>name. MuxService_call ops name s req resp w = None) message_catalog
     = [''FetchLastBlock'', ''FetchBlockByCount'']"
    unfolding MuxService_call_None_iff by (simp add: message_catalog_def)
qed (simp_all add: MuxService_call_def)

theorem seven_operations_routed_witness:
  "filter (\<lambda>name. MuxService_call counting_service name node (request ''db1'' 5) blank idle
       \<noteq> None) message_catalog
     = [''AdviseNewBlock'', ''AdviseBinLog'', ''AdviseResponsedQuery'', ''AdviseAckedQuery'',
        ''FetchBlock'', ''FetchAckedQuery'', ''SignBilling'']
   \<and> filter (\<lambda>name. MuxService_call counting_service name node (request ''db1'' 5) blank idle
       = None) message_catalog
     = [''FetchLastBlock'', ''FetchBlockByCount'']"
  using seven_operations_routed [where ops = counting_service and s = node
      and req = "request ''db1'' 5" and resp = blank and w = idle]
  by blast

section \<open>The query lifecycle through the router\<close>

lemma advances_forward: "forward a b \<Longrightarrow> advances b c \<Longrightarrow> forward a c"
  by (cases a; cases b; cases c) (simp_all add: forward_def advances_def)

lemma spec_AdviseResponsedQuery_advances:
  "rel_option advances (c k) (fst (snd (spec_AdviseResponsedQuery c q r)) k)"
  by (cases "c k") (auto simp: spec_AdviseResponsedQuery_def advances_def option.rel_refl)

lemma spec_AdviseAckedQuery_advances:
  "rel_option advances (c k) (fst (snd (spec_AdviseAckedQuery c q r)) k)"
  by (cases "c k") (auto simp: spec_AdviseAckedQuery_def advances_def option.rel_refl)

lemma spec_AdviseNewBlock_advances:
  "rel_option advances (c k) (fst (snd (spec_AdviseNewBlock c b r)) k)"
  by (cases "c k") (auto simp: spec_AdviseNewBlock_def advances_def option.rel_refl)

lemma deliver_known:
  assumes "serviceMap s dbid = Some v"
  shows "objects (snd (deliver s dbid msg w)) v =
           (case msg of
              ResponsedQuery q \<Rightarrow> fst (snd (spec_AdviseResponsedQuery (objects w v) q ()))
            | AckedQuery q \<Rightarrow> fst (snd (spec_AdviseAckedQuery (objects w v) q ()))
            | NewBlock b \<Rightarrow> fst (snd (spec_AdviseNewBlock (objects w v) b ())))"
    and "fst (deliver s dbid msg w) =
           (case msg of
              ResponsedQuery q \<Rightarrow> fst (spec_AdviseResponsedQuery (objects w v) q ())
            | AckedQuery q \<Rightarrow> fst (spec_AdviseAckedQuery (objects w v) q ())
            | NewBlock b \<Rightarrow> fst (spec_AdviseNewBlock (objects w v) b ()))"
  using assms
  by (cases msg; simp add: deliver_def known_chain forwarded_def fresh_def split: prod.splits)+

lemma deliver_advances:
  assumes "serviceMap s dbid = Some v"
  shows "rel_option advances (objects w v k) (objects (snd (deliver s dbid msg w)) v k)"
  unfolding deliver_known(1) [OF assms]
  by (cases msg)
    (simp_all add: spec_AdviseResponsedQuery_advances spec_AdviseAckedQuery_advances
      spec_AdviseNewBlock_advances)

lemma deliver_all_forward:
  assumes "serviceMap s dbid = Some v"
  shows "rel_option forward (objects w v k) (objects w' v k)
           \<Longrightarrow> rel_option forward (objects w v k) (objects (deliver_all s dbid msgs w') v k)"
proof (induction msgs arbitrary: w')
  case Nil
  then show ?case by simp
next
  case (Cons msg msgs)
  have step: "rel_option advances (objects w' v k) (objects (snd (deliver s dbid msg w')) v k)"
    by (rule deliver_advances [OF assms])
  have "rel_option forward (objects w v k) (objects (snd (deliver s dbid msg w')) v k)"
    using Cons.prems step
    by (cases "objects w v k"; cases "objects w' v k";
        cases "objects (snd (deliver s dbid msg w')) v k")
      (auto intro: advances_forward)
  then show ?case
    using Cons.IH by simp
qed

text \<open>
  C7. For a chain registered with the router and behaving as the specification's
  lifecycle says: one message delivered through the router moves each query of the chain
  by at most one arrow of \<open>Submitted \<rightarrow> Responsed \<rightarrow> Acked \<rightarrow> Committed\<close> or to \<open>Rejected\<close>
  from a state that is not terminal; over any sequence of messages a query's state is
  reachable from its earlier state along these arrows, so it never regresses and a
  known query stays known; \<open>AdviseAckedQuery\<close> for a query that is unknown, \<open>Submitted\<close> or
  \<open>Rejected\<close> returns an error and leaves that query's state as it was; and for a
  \<open>Submitted\<close> query, \<open>AdviseResponsedQuery\<close> then \<open>AdviseAckedQuery\<close>, both verifying,
  return no error and leave the query \<open>Acked\<close>.
\<close>

theorem query_lifecycle_one_directional:
  assumes "serviceMap s dbid = Some v"
  shows "rel_option advances (objects w v k) (objects (snd (deliver s dbid msg w)) v k)
       \<and> rel_option forward (objects w v k) (objects (deliver_all s dbid msgs w) v k)
       \<and> (objects w v k \<notin> {Some Responsed, Some Acked, Some Committed} \<longrightarrow>
            fst (deliver s dbid (AckedQuery \<lparr>query = k, verifies = ok\<rparr>) w) \<noteq> None
          \<and> objects (snd (deliver s dbid (AckedQuery \<lparr>query = k, verifies = ok\<rparr>) w)) v k
              = objects w v k)
       \<and> (objects w v k = Some Submitted \<longrightarrow>
            fst (deliver s dbid (ResponsedQuery \<lparr>query = k, verifies = True\<rparr>) w) = None
          \<and> fst (deliver s dbid (AckedQuery \<lparr>query = k, verifies = True\<rparr>)
                 (snd (deliver s dbid (ResponsedQuery \<lparr>query = k, verifies = True\<rparr>) w)))
              = None
          \<and> objects (deliver_all s dbid
                 [ResponsedQuery \<lparr>query = k, verifies = True\<rparr>,
                  AckedQuery \<lparr>query = k, verifies = True\<rparr>] w) v k = Some Acked)"
proof (intro conjI impI)
  show "rel_option advances (objects w v k) (objects (snd (deliver s dbid msg w)) v k)"
    by (rule deliver_advances [OF assms])
  have "rel_option forward (objects w v k) (objects w v k)"
    by (simp add: option.rel_refl forward_def)
  then show "rel_option forward (objects w v k) (objects (deliver_all s dbid msgs w) v k)"
    by (rule deliver_all_forward [OF assms])
next
  assume n: "objects w v k \<notin> {Some Responsed, Some Acked, Some Committed}"
  then show "fst (deliver s dbid (AckedQuery \<lparr>query = k, verifies = ok\<rparr>) w) \<noteq> None"
    by (simp add: deliver_known(2) [OF assms] spec_AdviseAckedQuery_def)
  from n show "objects (snd (deliver s dbid (AckedQuery \<lparr>query = k, verifies = ok\<rparr>) w)) v k
      = objects w v k"
    by (simp add: deliver_known(1) [OF assms] spec_AdviseAckedQuery_def)
next
  assume sub: "objects w v k = Some Submitted"
  then show "fst (deliver s dbid (ResponsedQuery \<lparr>query = k, verifies = True\<rparr>) w) = None"
    by (simp add: deliver_known(2) [OF assms] spec_AdviseResponsedQuery_def)
  from sub show "fst (deliver s dbid (AckedQuery \<lparr>query = k, verifies = True\<rparr>)
      (snd (deliver s dbid (ResponsedQuery \<lparr>query = k, verifies = True\<rparr>) w))) = None"
    by (simp add: deliver_known [OF assms] spec_AdviseResponsedQuery_def
        spec_AdviseAckedQuery_def)
  from sub show "objects (deliver_all s dbid
      [ResponsedQuery \<lparr>query = k, verifies = True\<rparr>,
       AckedQuery \<lparr>query = k, verifies = True\<rparr>] w) v k = Some Acked"
    by (simp add: deliver_known [OF assms] spec_AdviseResponsedQuery_def
        spec_AdviseAckedQuery_def)
qed

theorem query_lifecycle_one_directional_witness:
  "serviceMap node ''db1'' = Some 7
   \<and> objects one_query 7 1 = Some Submitted
   \<and> objects one_query 7 1 \<notin> {Some Responsed, Some Acked, Some Committed}
   \<and> fst (deliver node ''db1'' (AckedQuery \<lparr>query = 1, verifies = True\<rparr>) one_query) \<noteq> None
   \<and> objects (snd (deliver node ''db1'' (AckedQuery \<lparr>query = 1, verifies = True\<rparr>)
        one_query)) 7 1 = Some Submitted
   \<and> fst (deliver node ''db1'' (ResponsedQuery \<lparr>query = 1, verifies = True\<rparr>) one_query) = None
   \<and> objects (deliver_all node ''db1''
        [ResponsedQuery \<lparr>query = 1, verifies = True\<rparr>,
         AckedQuery \<lparr>query = 1, verifies = True\<rparr>] one_query) 7 1 = Some Acked"
proof -
  have h1: "serviceMap node ''db1'' = Some 7"
    by (simp add: example_defs)
  have h2: "objects one_query 7 1 = Some Submitted"
    by (simp add: one_query_def)
  have h3: "objects one_query 7 1 \<notin> {Some Responsed, Some Acked, Some Committed}"
    by (simp add: one_query_def)
  note a = query_lifecycle_one_directional [OF h1, where w = one_query and k = 1
      and ok = True]
  from a h1 h2 h3 show ?thesis
    by simp
qed

end
